theory Spec2Isabelle
  imports Complex_Main
begin

section \<open>The AR capture screen and the review screen as effectful handlers\<close>

text \<open>
  The program is a controller object \<open>App\<close> whose methods are browser callbacks,
  plus a stand-alone review script. Each callback is embedded as a function from the
  controller's state (the fields of \<open>this\<close> and the few DOM properties it writes) to the
  new state and the list of calls it makes on the browser, in the order it makes them.
  What the browser answers (a pose or null, a promise fulfilled or rejected, an image
  loaded or not) is an argument of the callback. An uncaught exception ends the callback:
  the trace ends with \<open>Uncaught\<close> and the state keeps the writes made before it.

  Coordinates are only ever copied by this code, never computed with; they are reals here.
\<close>

subsection \<open>Data\<close>

type_synonym vec3 = "real \<times> real \<times> real"

text \<open>A THREE.Object3D, as far as this code reads and writes it.\<close>

record object3d =
  position :: vec3
  visible :: bool

datatype error = TypeError | DOMException string

datatype callback =
    CB_activateXR
  | CB_onXRFrame
  | CB_onSelect
  | CB_captureImage
  | CB_captureImage_frame

text \<open>A 2D canvas: its size and the drawing calls made on its context, in order. What
  \<open>drawImage\<close> draws is an image element, given by its \<open>src\<close>, or another canvas with
  what has been drawn on it; numbers are the integers the code passes. \<open>DrawVideoCrop\<close>
  is the one call that draws the video: its crop rectangle is computed in floating point
  from the video's size, and the call records the sizes it is computed from (of the
  video, then of the canvas).\<close>

datatype canvas = Canvas (cwidth: nat) (cheight: nat) (cops: "draw_op list")
  and draw_op =
    Save
  | Restore
  | Translate int int
  | Scale int int
  | PutImageData string int int
  | DrawImage5 source int int int int
  | DrawImage9 source int int int int int int int int
  | DrawVideoCrop nat nat nat nat
  and source = ImageElement string | CanvasElement canvas

text \<open>The calls into the browser and the 3D library whose results the code does not
  branch on, by the name of what is called.\<close>

datatype libcall =
    construct_WebGLRenderer
  | DemoUtils_createLitScene
  | construct_Reticle
  | scene_add
  | construct_PerspectiveCamera
  | construct_Clock
  | construct_AnimationMixer
  | mixer_clipAction
  | action_play
  | gl_bindFramebuffer
  | renderer_setFramebuffer
  | camera_matrix_fromArray
  | camera_projectionMatrix_fromArray
  | camera_updateMatrixWorld
  | reticle_updateMatrixWorld
  | mixer_update_getDelta
  | renderer_render
  | gl_readPixels
  | createElement_canvas
  | body_appendChild
  | canvas_getContext_webgl
  | canvas_getContext_2d
  | xrSession_updateRenderState
  | xr_isSessionSupported
  | getElementById_video
  | video_set_srcObject
  | video_play

datatype effect =
    ConsoleLog string
  | ConsoleLogError error
  | ConsoleWarn string
  | ConsoleError string
  | ConsoleErrorWith string error
  | Alert string
  | OnNoXRDevice
  | AddEventListener string string callback
  | RequestSession string
  | RequestReferenceSpace string
  | RequestHitTestSource
  | RequestAnimationFrame callback
  | GetViewerPose
  | GetHitTestResults
  | SetSize nat nat
  | Call libcall
  | LoadGLTF string
  | GetUserMedia
  | LoadImage string
  | SetItem string string
  | Navigate string
  | SetImgSrc string string
  | CanvasResize string nat nat
  | CanvasDraw string draw_op
  | ToBlob string
  | SetDownload string string
  | SetShareOnclick string
  | Share string
  | Uncaught error

text \<open>The fields of the controller and the DOM properties its callbacks write.
  \<open>reticle\<close> and \<open>sunflower\<close> are undefined (\<open>None\<close>) until \<open>setupThreeJs\<close> and
  the model loader's callback assign them; \<open>shadowMesh\<close> is the child of the scene named
  'shadowMesh', when the scene has one.\<close>

record app =
  modelCloned :: bool
  animation :: bool
  stabilized :: bool
  reticle :: "object3d option"
  sunflower :: "object3d option"
  mixer :: bool
  shadowMesh :: "object3d option"
  captureContainer_display :: string
  prompt_display :: string
  body_classList :: "string set"

text \<open>What the code uses and this repository's sources do not define: the \<open>Reticle\<close>
  class (its constructor and its \<open>hide\<close> method), the scene built by
  \<open>DemoUtils.createLitScene\<close>, the canvas encoder \<open>toDataURL\<close>, and the width the
  browser gives the camera canvas from the floating-point product \<open>height * (9 / 20)\<close>.
  They are parameters.\<close>

record ext =
  new_Reticle :: object3d
  reticle_hide :: "object3d \<Rightarrow> object3d"
  createLitScene_shadowMesh :: "object3d option"
  toDataURL :: "string \<Rightarrow> canvas \<Rightarrow> string"
  camera_width :: "nat \<Rightarrow> nat"

text \<open>An XRFrame as the callbacks query it: the viewer pose (the viewport of its first
  view) or null, and the hit-test results, each with the position of its pose in the local
  reference space or null.\<close>

record xrframe =
  viewerPose :: "(nat \<times> nat) option"
  hitTestResults :: "vec3 option list"

text \<open>A loaded glTF file: its scene, whether the scene has a child named
  'Sketchfab_model', and its animations (undefined, or an array of some length).\<close>

record gltf =
  gltf_scene :: object3d
  has_Sketchfab_model :: bool
  animations :: "nat option"

subsection \<open>The controller\<close>

text \<open>The constructor: the two flags start false, everything else is undefined. The
  display values of the two DOM elements are those of the page.\<close>

definition App_constructor :: "string \<Rightarrow> string \<Rightarrow> string set \<Rightarrow> app \<times> effect list" where
  "App_constructor capture_display prompt_disp classes =
     (\<lparr>modelCloned = False, animation = False, stabilized = False,
       reticle = None, sunflower = None, mixer = False, shadowMesh = None,
       captureContainer_display = capture_display, prompt_display = prompt_disp,
       body_classList = classes\<rparr>,
      [AddEventListener ''capture-button'' ''click'' CB_captureImage])"

text \<open>\<open>setupThreeJs\<close>: renderer, scene, reticle, camera, the request for the model,
  the clock.\<close>

definition setupThreeJs :: "ext \<Rightarrow> app \<Rightarrow> app \<times> effect list" where
  "setupThreeJs x st =
     (st\<lparr>reticle := Some (new_Reticle x), shadowMesh := createLitScene_shadowMesh x\<rparr>,
      [Call construct_WebGLRenderer, Call DemoUtils_createLitScene,
       Call construct_Reticle, Call scene_add, Call construct_PerspectiveCamera,
       LoadGLTF ''../public/robot/scene.gltf'', Call construct_Clock])"

text \<open>The loader's callback. \<open>find\<close> returns undefined when no child has the name,
  and the write to \<open>model.castShadow\<close> then throws before anything is assigned.\<close>

definition setupThreeJs_onload :: "gltf \<Rightarrow> app \<Rightarrow> app \<times> effect list" where
  "setupThreeJs_onload g st =
     (if \<not> has_Sketchfab_model g then (st, [Uncaught TypeError])
      else
        let st1 = st\<lparr>sunflower := Some (gltf_scene g), mixer := True\<rparr>;
            t1 = [Call construct_AnimationMixer];
            (st2, t2) =
              (case animations g of
                 None \<Rightarrow> (st1, t1)
               | Some n \<Rightarrow>
                   if n > 0
                   then (st1\<lparr>animation := True\<rparr>,
                         t1 @ [Call mixer_clipAction, Call action_play])
                   else (st1, t1))
        in (st2\<lparr>sunflower := Some ((gltf_scene g)\<lparr>visible := False\<rparr>)\<rparr>,
            t2 @ [Call scene_add]))"

text \<open>\<open>onSelect\<close>. The guard is \<open>!this.modelCloned && this.sunflower\<close>. Reading
  \<open>this.reticle.position\<close> throws when the reticle is undefined.\<close>

definition onSelect :: "ext \<Rightarrow> app \<Rightarrow> app \<times> effect list" where
  "onSelect x st =
     (if modelCloned st then (st, [])
      else
        (case sunflower st of
           None \<Rightarrow> (st, [])
         | Some m \<Rightarrow>
             (case reticle st of
                None \<Rightarrow> (st, [Uncaught TypeError])
              | Some r \<Rightarrow>
                  let m1 = m\<lparr>position := position r, visible := True\<rparr>;
                      st1 = st\<lparr>sunflower := Some m1, captureContainer_display := ''flex''\<rparr>;
                      (st2, t2) =
                        (case shadowMesh st1 of
                           Some s \<Rightarrow>
                             (st1\<lparr>shadowMesh :=
                                  Some (s\<lparr>position :=
                                    (fst (position s), fst (snd (position m1)),
                                     snd (snd (position s)))\<rparr>)\<rparr>, [])
                         | None \<Rightarrow> (st1, [ConsoleWarn ''Shadow mesh not found.'']));
                      st3 = st2\<lparr>modelCloned := True\<rparr>
                  in (case reticle st3 of
                        Some r3 \<Rightarrow> (st3\<lparr>reticle := Some (reticle_hide x r3)\<rparr>, t2)
                      | None \<Rightarrow> (st3, t2 @ [ConsoleWarn ''Reticle is not found.''])))))"

text \<open>\<open>onXRFrame\<close>. The hit pose of the first result is read only in the branch that
  moves the reticle; when it is null that read throws, after \<open>visible\<close> has been set.\<close>

definition onXRFrame :: "app \<Rightarrow> xrframe \<Rightarrow> app \<times> effect list" where
  "onXRFrame st frame =
     (let t0 = [RequestAnimationFrame CB_onXRFrame, Call gl_bindFramebuffer,
                Call renderer_setFramebuffer, GetViewerPose]
      in case viewerPose frame of
           None \<Rightarrow> (st, t0)
         | Some (w, h) \<Rightarrow>
             let t1 = t0 @ [SetSize w h, Call camera_matrix_fromArray,
                            Call camera_projectionMatrix_fromArray,
                            Call camera_updateMatrixWorld, GetHitTestResults];
                 hits = hitTestResults frame;
                 st1 = (if \<not> stabilized st \<and> length hits > 0
                        then st\<lparr>stabilized := True,
                                body_classList := insert ''stabilized'' (body_classList st)\<rparr>
                        else st);
                 (st2, t2, err) =
                   (case hits of
                      [] \<Rightarrow> (st1, t1, None)
                    | hitPose # _ \<Rightarrow>
                        (case reticle st1 of
                           None \<Rightarrow> (st1, t1 @ [ConsoleError ''Reticle is not found.''], None)
                         | Some r \<Rightarrow>
                             if \<not> modelCloned st1
                             then (case hitPose of
                                     None \<Rightarrow>
                                       (st1\<lparr>reticle := Some (r\<lparr>visible := True\<rparr>)\<rparr>,
                                        t1, Some TypeError)
                                   | Some p \<Rightarrow>
                                       (st1\<lparr>reticle :=
                                          Some (r\<lparr>visible := True, position := p\<rparr>)\<rparr>,
                                        t1 @ [Call reticle_updateMatrixWorld], None))
                             else (st1, t1 @ [ConsoleError ''Reticle is not found.''], None)))
             in (case err of
                   Some e \<Rightarrow> (st2, t2 @ [Uncaught e])
                 | None \<Rightarrow>
                     (st2,
                      t2 @ (if mixer st2 \<and> animation st2 then [Call mixer_update_getDelta] else [])
                         @ [Call renderer_render])))"

text \<open>\<open>captureImage\<close>, the click handler of the capture button: it shows the prompt
  and asks the session for one frame.\<close>

definition captureImage :: "app \<Rightarrow> app \<times> effect list" where
  "captureImage st =
     (st\<lparr>prompt_display := ''flex''\<rparr>,
      [ConsoleLog ''Starting capture process'', RequestAnimationFrame CB_captureImage_frame])"

subsection \<open>The browser\<close>

text \<open>The browser as the start-up code queries it. \<open>has_xr\<close> is
  \<open>navigator.xr && navigator.xr.isSessionSupported\<close>; the promise of
  \<open>isSessionSupported\<close> is rejected (\<open>Inl\<close>) or fulfilled with a boolean;
  \<open>has_mediaDevices\<close> is \<open>navigator.mediaDevices && navigator.mediaDevices.getUserMedia\<close>;
  \<open>has_share\<close> is \<open>navigator.share\<close>.\<close>

record navigator =
  has_xr :: bool
  isSessionSupported_result :: "error + bool"
  has_mediaDevices :: bool
  has_share :: bool

subsection \<open>Capturing the image\<close>

text \<open>The crop arithmetic of \<open>combineCanvases\<close>. A canvas height is an unsigned
  integer; \<open>3 / 4\<close> is exactly representable and the product with an integer of that
  size is exact, so \<open>Math.floor((3 / 4) * h)\<close> is the integer quotient of \<open>3 * h\<close> by 4.
  \<open>targetHeight\<close> never exceeds \<open>h\<close>, so the difference below is the code's.\<close>

definition targetHeight :: "nat \<Rightarrow> nat" where
  "targetHeight h = (3 * h) div 4"

definition cropMargin :: "nat \<Rightarrow> nat" where
  "cropMargin h = (h - targetHeight h) div 2"

text \<open>What loading an image leads to: its \<open>onload\<close> with the image's width and height,
  its \<open>onerror\<close>, or neither.\<close>

datatype image_event = ImgLoad nat nat | ImgError | ImgPending

text \<open>What the browser answers during one capture: the promise of \<open>getUserMedia\<close>
  (\<open>None\<close> is fulfilled), the \<open>loadeddata\<close> event of the video with the video's width and
  height (\<open>None\<close>: it never fires), the banner image, and \<open>localStorage.setItem\<close>, which
  throws when the quota is exceeded (\<open>None\<close>: it returns).\<close>

record capture_env =
  getUserMedia_result :: "error option"
  video_loadeddata :: "(nat \<times> nat) option"
  banner_result :: image_event
  setItem_result :: "error option"

text \<open>The final canvas as the banner's \<open>onload\<close> draws it: the banner on top, then the
  middle of the camera canvas and of the AR canvas below it.\<close>

definition finalCanvas :: "canvas \<Rightarrow> canvas \<Rightarrow> nat \<Rightarrow> canvas" where
  "finalCanvas arCanvas cameraCanvas banner_height =
     (let th = targetHeight (cheight arCanvas);
          cm = cropMargin (cheight arCanvas);
          w = cwidth arCanvas
      in Canvas w (th + banner_height)
           [DrawImage5 (ImageElement ''public/banner.jpg'') 0 0 (int w) (int banner_height),
            DrawImage9 (CanvasElement cameraCanvas) 0 (int cm) (int w) (int th)
              0 (int banner_height) (int w) (int th),
            DrawImage9 (CanvasElement arCanvas) 0 (int cm) (int w) (int th)
              0 (int banner_height) (int w) (int th)])"

text \<open>\<open>combineCanvases\<close> with the callback of the banner image that fires. Nothing in
  its try block throws for two canvases, so its handler is not reached; the callbacks run
  later, outside the try block, and an exception in them is uncaught. In \<open>onload\<close>,
  \<open>drawImage\<close> throws an InvalidStateError when the canvas it is to draw has a width or
  a height of zero: first for the camera canvas, then for the AR canvas, in both cases
  before anything is stored.\<close>

definition combineCanvases ::
  "ext \<Rightarrow> capture_env \<Rightarrow> app \<Rightarrow> canvas \<Rightarrow> canvas \<Rightarrow> app \<times> effect list" where
  "combineCanvases x env st arCanvas cameraCanvas =
     (let t0 = [Call createElement_canvas, LoadImage ''public/banner.jpg'']
      in case banner_result env of
           ImgPending \<Rightarrow> (st, t0)
         | ImgError \<Rightarrow> (st, t0 @ [Alert ''Failed to load the banner image.''])
         | ImgLoad bw bh \<Rightarrow>
             if cwidth cameraCanvas = 0 \<or> cheight cameraCanvas = 0
                \<or> cwidth arCanvas = 0 \<or> cheight arCanvas = 0
             then (st, t0 @ [Uncaught (DOMException ''InvalidStateError'')])
             else
               (let dataURL = toDataURL x ''image/png'' (finalCanvas arCanvas cameraCanvas bh)
                in case setItem_result env of
                     Some e \<Rightarrow> (st, t0 @ [Uncaught e])
                   | None \<Rightarrow>
                       (st\<lparr>prompt_display := ''none''\<rparr>,
                        t0 @ [SetItem ''capturedImage'' dataURL,
                              ConsoleLog ''Image processed and stored, redirecting to review page'',
                              Navigate ''review.html''])))"

text \<open>\<open>getCamerafeed\<close> with the callbacks of its promise and of the video. The guard
  has no else branch. The crop rectangle of the video is computed in floating point from
  the video's size.\<close>

definition getCamerafeed ::
  "ext \<Rightarrow> navigator \<Rightarrow> capture_env \<Rightarrow> app \<Rightarrow> canvas \<Rightarrow> app \<times> effect list" where
  "getCamerafeed x nav env st arCanvas =
     (if has_mediaDevices nav
      then
        let cameraCanvas = Canvas (camera_width x (cheight arCanvas)) (cheight arCanvas) [];
            t0 = [Call getElementById_video,
                  Call createElement_canvas, GetUserMedia]
        in case getUserMedia_result env of
             Some e \<Rightarrow>
               (st, t0 @ [ConsoleErrorWith ''Error accessing media devices.'' e,
                          Alert ''Failed to access the camera. Please check your browser permissions.''])
           | None \<Rightarrow>
               (let t1 = t0 @ [Call video_set_srcObject, Call video_play]
                in case video_loadeddata env of
                     None \<Rightarrow> (st, t1)
                   | Some (vw, vh) \<Rightarrow>
                       (let cameraCanvas1 =
                              Canvas (cwidth cameraCanvas) (cheight cameraCanvas)
                                [Translate 0 (int (cheight cameraCanvas)), Scale 1 (- 1),
                                 DrawVideoCrop vw vh (cwidth cameraCanvas) (cheight cameraCanvas)];
                            (st1, t2) = combineCanvases x env st arCanvas cameraCanvas1
                        in (st1, t1 @ t2)))
      else (st, []))"

text \<open>The frame callback that \<open>captureImage\<close> schedules. \<open>createImageData\<close> throws
  an IndexSizeError when the viewport has a width or a height of zero, after the canvas
  has been created and before the camera feed is asked for.\<close>

definition captureImage_frame ::
  "ext \<Rightarrow> navigator \<Rightarrow> capture_env \<Rightarrow> app \<Rightarrow> xrframe \<Rightarrow> app \<times> effect list" where
  "captureImage_frame x nav env st frame =
     (let t0 = [ConsoleLog ''requestAnimationFrame called'', GetViewerPose]
      in case viewerPose frame of
           None \<Rightarrow> (st, t0 @ [ConsoleError ''No pose available for capture''])
         | Some (w, h) \<Rightarrow>
             (let t1 = t0 @ [ConsoleLog ''Pose obtained, rendering scene'', SetSize w h,
                             Call renderer_render,
                             ConsoleLog ''Scene rendered, capturing pixels'',
                             Call gl_readPixels,
                             ConsoleLog ''Pixels captured, processing image'',
                             Call createElement_canvas]
              in if w = 0 \<or> h = 0
                 then (st, t1 @ [Uncaught (DOMException ''IndexSizeError'')])
                 else
                   (let arCanvas = Canvas w h [Translate 0 (int h), Scale 1 (- 1),
                                               PutImageData ''pixels'' 0 0];
                        (st1, t2) = getCamerafeed x nav env st arCanvas
                    in (st1, t1 @ t2))))"

subsection \<open>The review script\<close>

text \<open>\<open>localStorage\<close> is a map from keys to strings; \<open>getItem\<close> returns null for a
  key without an entry, and the guard \<open>if (imageData)\<close> is false for null and for the
  empty string. The image's \<open>onload\<close> sizes and draws the canvas and asks for a blob,
  whose callback sets up the two buttons.\<close>

definition review :: "(string \<rightharpoonup> string) \<Rightarrow> image_event \<Rightarrow> effect list" where
  "review localStorage image_result =
     (case localStorage ''capturedImage'' of
        None \<Rightarrow> [Alert ''No image data available.'']
      | Some imageData \<Rightarrow>
          if imageData = [] then [Alert ''No image data available.'']
          else
            [SetImgSrc ''captured-image'' imageData, Call canvas_getContext_2d,
             LoadImage imageData] @
            (case image_result of
               ImgLoad w h \<Rightarrow>
                 [CanvasResize ''final-canvas'' w h,
                  CanvasDraw ''final-canvas'' Save,
                  CanvasDraw ''final-canvas'' (Translate 0 (int h)),
                  CanvasDraw ''final-canvas'' (Scale 1 (- 1)),
                  CanvasDraw ''final-canvas'' (DrawImage5 (ImageElement imageData) 0 0 (int w) (int h)),
                  CanvasDraw ''final-canvas'' Restore,
                  ToBlob ''final-canvas'',
                  SetDownload ''download-button'' ''captured_image.png'',
                  SetShareOnclick ''share-button'']
             | ImgError \<Rightarrow> []
             | ImgPending \<Rightarrow> []))"

text \<open>The click handler the review script gives the share button.\<close>

definition review_share_onclick :: "navigator \<Rightarrow> effect list" where
  "review_share_onclick nav =
     (if has_share nav then [Share ''Captured Image'']
      else [Alert ''Sharing not supported on this device.''])"

subsection \<open>Starting the session\<close>

text \<open>The promises awaited while a session starts: \<open>None\<close> is fulfilled, \<open>Some e\<close>
  is rejected with \<open>e\<close>.\<close>

record xr_env =
  requestSession_result :: "error option"
  referenceSpace_local_result :: "error option"
  referenceSpace_viewer_result :: "error option"
  hitTestSource_result :: "error option"

text \<open>The support check that runs when the script loads.\<close>

definition xr_support_check :: "navigator \<Rightarrow> effect list" where
  "xr_support_check nav =
     (if \<not> has_xr nav then [OnNoXRDevice]
      else
        Call xr_isSessionSupported #
        (case isSessionSupported_result nav of
           Inl e \<Rightarrow> [Uncaught e]
         | Inr isArSessionSupported \<Rightarrow>
             if isArSessionSupported
             then [AddEventListener ''enter-ar'' ''click'' CB_activateXR]
             else [OnNoXRDevice]))"

definition createXRCanvas :: "effect list" where
  "createXRCanvas =
     [Call createElement_canvas, Call body_appendChild,
      Call canvas_getContext_webgl, Call xrSession_updateRenderState]"

text \<open>\<open>onSessionStarted\<close> returns the exception of the first rejected promise, if any,
  to its caller.\<close>

definition onSessionStarted :: "xr_env \<Rightarrow> ext \<Rightarrow> app \<Rightarrow> app \<times> effect list \<times> error option" where
  "onSessionStarted env x st =
     (let st0 = st\<lparr>body_classList := insert ''ar'' (body_classList st)\<rparr>;
          (st1, t1) = setupThreeJs x st0;
          t2 = t1 @ [RequestReferenceSpace ''local'']
      in case referenceSpace_local_result env of
           Some e \<Rightarrow> (st1, t2, Some e)
         | None \<Rightarrow>
             (let t3 = t2 @ [RequestReferenceSpace ''viewer'']
              in case referenceSpace_viewer_result env of
                   Some e \<Rightarrow> (st1, t3, Some e)
                 | None \<Rightarrow>
                     (let t4 = t3 @ [RequestHitTestSource]
                      in case hitTestSource_result env of
                           Some e \<Rightarrow> (st1, t4, Some e)
                         | None \<Rightarrow>
                             (st1,
                              t4 @ [RequestAnimationFrame CB_onXRFrame,
                                    AddEventListener ''xrSession'' ''select'' CB_onSelect],
                              None))))"

text \<open>\<open>activateXR\<close>: everything is inside one try block, whose handler logs the
  exception and shows the fallback.\<close>

definition activateXR :: "xr_env \<Rightarrow> ext \<Rightarrow> app \<Rightarrow> app \<times> effect list" where
  "activateXR env x st =
     (let t0 = [RequestSession ''immersive-ar'']
      in case requestSession_result env of
           Some e \<Rightarrow> (st, t0 @ [ConsoleLogError e, OnNoXRDevice])
         | None \<Rightarrow>
             (let (st1, t1, err) = onSessionStarted env x st
              in case err of
                   None \<Rightarrow> (st1, t0 @ createXRCanvas @ t1)
                 | Some e \<Rightarrow>
                     (st1, t0 @ createXRCanvas @ t1 @ [ConsoleLogError e, OnNoXRDevice])))"

subsection \<open>Runs of a session\<close>

text \<open>The callbacks of a started session, as events with what the browser hands them;
  a run applies them in order.\<close>

datatype event =
    Select
  | XRFrame xrframe
  | GLTFLoaded gltf
  | CaptureClick
  | CaptureFrame navigator capture_env xrframe

fun step :: "ext \<Rightarrow> app \<Rightarrow> event \<Rightarrow> app" where
  "step x st Select = fst (onSelect x st)"
| "step x st (XRFrame frame) = fst (onXRFrame st frame)"
| "step x st (GLTFLoaded g) = fst (setupThreeJs_onload g st)"
| "step x st CaptureClick = fst (captureImage st)"
| "step x st (CaptureFrame nav env frame) = fst (captureImage_frame x nav env st frame)"

definition run :: "ext \<Rightarrow> app \<Rightarrow> event list \<Rightarrow> app" where
  "run x st evs = foldl (step x) st evs"

subsection \<open>Reading traces\<close>

definition is_RequestAnimationFrame :: "effect \<Rightarrow> bool" where
  "is_RequestAnimationFrame e = (case e of RequestAnimationFrame c \<Rightarrow> True | _ \<Rightarrow> False)"

definition is_SetItem :: "effect \<Rightarrow> bool" where
  "is_SetItem e = (case e of SetItem k v \<Rightarrow> True | _ \<Rightarrow> False)"

definition is_Navigate :: "effect \<Rightarrow> bool" where
  "is_Navigate e = (case e of Navigate u \<Rightarrow> True | _ \<Rightarrow> False)"

definition is_RequestSession :: "effect \<Rightarrow> bool" where
  "is_RequestSession e = (case e of RequestSession m \<Rightarrow> True | _ \<Rightarrow> False)"

text \<open>The calls with which the review script renders: the displayed image, the canvas,
  the download and share buttons.\<close>

definition is_render :: "effect \<Rightarrow> bool" where
  "is_render e =
     (case e of
        SetImgSrc i v \<Rightarrow> True
      | LoadImage u \<Rightarrow> True
      | CanvasResize c w h \<Rightarrow> True
      | CanvasDraw c d \<Rightarrow> True
      | ToBlob c \<Rightarrow> True
      | SetDownload b n \<Rightarrow> True
      | SetShareOnclick b \<Rightarrow> True
      | _ \<Rightarrow> False)"

subsection \<open>A sample session\<close>

text \<open>Concrete inputs on which the theorems below are instantiated: a reticle whose
  \<open>hide\<close> clears \<open>visible\<close>, a scene with a shadow mesh, a browser with every API, a
  model with one animation, a frame with a pose and one hit.\<close>

definition sample_ext :: ext where
  "sample_ext =
     \<lparr>new_Reticle = \<lparr>position = (0, 0, 0), visible = False\<rparr>,
      reticle_hide = (\<lambda>r. r\<lparr>visible := False\<rparr>),
      createLitScene_shadowMesh = Some \<lparr>position = (0, 0, 0), visible = True\<rparr>,
      toDataURL = (\<lambda>mime c. ''data:'' @ mime @ '';base64,''),
      camera_width = (\<lambda>h. (9 * h) div 20)\<rparr>"

definition sample_navigator :: navigator where
  "sample_navigator =
     \<lparr>has_xr = True, isSessionSupported_result = Inr True,
      has_mediaDevices = True, has_share = True\<rparr>"

definition sample_xr_env :: xr_env where
  "sample_xr_env =
     \<lparr>requestSession_result = None, referenceSpace_local_result = None,
      referenceSpace_viewer_result = None, hitTestSource_result = None\<rparr>"

definition sample_gltf :: gltf where
  "sample_gltf =
     \<lparr>gltf_scene = \<lparr>position = (0, 0, 0), visible = True\<rparr>,
      has_Sketchfab_model = True, animations = Some 1\<rparr>"

definition sample_frame :: xrframe where
  "sample_frame = \<lparr>viewerPose = Some (1080, 2400), hitTestResults = [Some (1, 0, - 2)]\<rparr>"

definition sample_capture_env :: capture_env where
  "sample_capture_env =
     \<lparr>getUserMedia_result = None, video_loadeddata = Some (1920, 1080),
      banner_result = ImgLoad 1080 200, setItem_result = None\<rparr>"

definition sample_arCanvas :: canvas where
  "sample_arCanvas =
     Canvas 1080 2400 [Translate 0 2400, Scale 1 (- 1), PutImageData ''pixels'' 0 0]"

definition sample_cameraCanvas :: canvas where
  "sample_cameraCanvas =
     Canvas 1080 2400 [Translate 0 2400, Scale 1 (- 1), DrawVideoCrop 1920 1080 1080 2400]"

text \<open>The controller once the session has started, and once the model has loaded and
  a frame with a hit has moved the reticle.\<close>

definition sample_started :: app where
  "sample_started =
     fst (activateXR sample_xr_env sample_ext (fst (App_constructor ''none'' ''none'' {})))"

definition sample_loaded :: app where
  "sample_loaded = run sample_ext sample_started [GLTFLoaded sample_gltf, XRFrame sample_frame]"

section \<open>Properties\<close>

subsection \<open>The sample session, evaluated\<close>

lemma sample_started_eq:
  "sample_started =
     \<lparr>modelCloned = False, animation = False, stabilized = False,
      reticle = Some \<lparr>position = (0, 0, 0), visible = False\<rparr>, sunflower = None,
      mixer = False, shadowMesh = Some \<lparr>position = (0, 0, 0), visible = True\<rparr>,
      captureContainer_display = ''none'', prompt_display = ''none'',
      body_classList = {''ar''}\<rparr>"
  by (simp add: sample_started_def activateXR_def onSessionStarted_def setupThreeJs_def
      App_constructor_def sample_xr_env_def sample_ext_def Let_def)

lemma sample_loaded_eq:
  "sample_loaded =
     \<lparr>modelCloned = False, animation = True, stabilized = True,
      reticle = Some \<lparr>position = (1, 0, - 2), visible = True\<rparr>,
      sunflower = Some \<lparr>position = (0, 0, 0), visible = False\<rparr>,
      mixer = True, shadowMesh = Some \<lparr>position = (0, 0, 0), visible = True\<rparr>,
      captureContainer_display = ''none'', prompt_display = ''none'',
      body_classList = {''stabilized'', ''ar''}\<rparr>"
  by (simp add: sample_loaded_def run_def sample_started_eq setupThreeJs_onload_def
      onXRFrame_def sample_gltf_def sample_frame_def Let_def)

subsection \<open>The placed flag\<close>

lemma onSelect_placed_noop: "modelCloned st \<Longrightarrow> onSelect x st = (st, [])"
  by (simp add: onSelect_def)

lemma onSelect_places:
  assumes "\<not> modelCloned st" and "sunflower st = Some m" and "reticle st = Some r"
  shows "sunflower (fst (onSelect x st)) = Some (m\<lparr>position := position r, visible := True\<rparr>)"
    and "modelCloned (fst (onSelect x st))"
    and "reticle (fst (onSelect x st)) = Some (reticle_hide x r)"
  using assms by (auto simp: onSelect_def Let_def split: option.splits prod.splits)

lemma onXRFrame_modelCloned: "modelCloned (fst (onXRFrame st frame)) = modelCloned st"
  by (auto simp: onXRFrame_def Let_def split: option.splits list.splits prod.splits)

lemma onXRFrame_placed_reticle:
  "modelCloned st \<Longrightarrow> reticle (fst (onXRFrame st frame)) = reticle st"
  by (auto simp: onXRFrame_def Let_def split: option.splits list.splits prod.splits)

lemma setupThreeJs_onload_modelCloned:
  "modelCloned (fst (setupThreeJs_onload g st)) = modelCloned st"
  by (auto simp: setupThreeJs_onload_def Let_def split: option.splits prod.splits)

lemma setupThreeJs_onload_reticle:
  "reticle (fst (setupThreeJs_onload g st)) = reticle st"
  by (auto simp: setupThreeJs_onload_def Let_def split: option.splits prod.splits)

lemma setupThreeJs_onload_sunflower:
  "has_Sketchfab_model g \<Longrightarrow>
   sunflower (fst (setupThreeJs_onload g st)) = Some ((gltf_scene g)\<lparr>visible := False\<rparr>)"
  by (auto simp: setupThreeJs_onload_def Let_def split: option.splits prod.splits)

lemma combineCanvases_state:
  "fst (combineCanvases x env st ar cam) = st
   \<or> fst (combineCanvases x env st ar cam) = st\<lparr>prompt_display := ''none''\<rparr>"
  by (simp add: combineCanvases_def Let_def split: image_event.splits option.splits)

lemma getCamerafeed_state:
  "fst (getCamerafeed x nav env st ar) = st
   \<or> fst (getCamerafeed x nav env st ar) = st\<lparr>prompt_display := ''none''\<rparr>"
proof (cases "has_mediaDevices nav \<and> getUserMedia_result env = None")
  case False
  then show ?thesis
    by (auto simp: getCamerafeed_def Let_def)
next
  case True
  show ?thesis
  proof (cases "video_loadeddata env")
    case None
    with True show ?thesis by (simp add: getCamerafeed_def Let_def)
  next
    case (Some v)
    obtain vw vh where "v = (vw, vh)" by (cases v)
    with True Some combineCanvases_state show ?thesis
      by (simp add: getCamerafeed_def Let_def case_prod_beta)
  qed
qed

lemma captureImage_frame_state:
  "fst (captureImage_frame x nav env st frame) = st
   \<or> fst (captureImage_frame x nav env st frame) = st\<lparr>prompt_display := ''none''\<rparr>"
proof (cases "viewerPose frame")
  case None
  then show ?thesis by (simp add: captureImage_frame_def)
next
  case (Some v)
  obtain w h where "v = (w, h)" by (cases v)
  with Some getCamerafeed_state show ?thesis
    by (simp add: captureImage_frame_def Let_def case_prod_beta)
qed

lemma captureImage_frame_modelCloned:
  "modelCloned (fst (captureImage_frame x nav env st frame)) = modelCloned st"
  using captureImage_frame_state [of x nav env st frame] by auto

lemma captureImage_frame_reticle:
  "reticle (fst (captureImage_frame x nav env st frame)) = reticle st"
  using captureImage_frame_state [of x nav env st frame] by auto

lemma step_placed: "modelCloned st \<Longrightarrow> modelCloned (step x st ev)"
  by (cases ev)
     (simp_all add: onSelect_placed_noop onXRFrame_modelCloned
        setupThreeJs_onload_modelCloned captureImage_def captureImage_frame_modelCloned)

lemma step_placed_reticle: "modelCloned st \<Longrightarrow> reticle (step x st ev) = reticle st"
  by (cases ev)
     (simp_all add: onSelect_placed_noop onXRFrame_placed_reticle
        setupThreeJs_onload_reticle captureImage_def captureImage_frame_reticle)

lemma run_placed: "modelCloned st \<Longrightarrow> modelCloned (run x st evs)"
  unfolding run_def by (induction evs arbitrary: st) (simp_all add: step_placed)

lemma run_placed_reticle: "modelCloned st \<Longrightarrow> reticle (run x st evs) = reticle st"
  unfolding run_def
  by (induction evs arbitrary: st) (simp_all add: step_placed step_placed_reticle)

text \<open>In a started session the reticle is always set: \<open>setupThreeJs\<close> creates it
  before any callback is registered, and no callback unsets it.\<close>

lemma onSelect_reticle_set:
  "reticle st \<noteq> None \<Longrightarrow> reticle (fst (onSelect x st)) \<noteq> None"
  by (auto simp: onSelect_def Let_def split: option.splits prod.splits)

lemma onXRFrame_reticle_set:
  "reticle st \<noteq> None \<Longrightarrow> reticle (fst (onXRFrame st frame)) \<noteq> None"
  by (auto simp: onXRFrame_def Let_def split: option.splits list.splits prod.splits)

lemma step_reticle_set: "reticle st \<noteq> None \<Longrightarrow> reticle (step x st ev) \<noteq> None"
  by (cases ev)
     (simp_all add: onSelect_reticle_set onXRFrame_reticle_set
        setupThreeJs_onload_reticle captureImage_def captureImage_frame_reticle)

lemma run_reticle_set: "reticle st \<noteq> None \<Longrightarrow> reticle (run x st evs) \<noteq> None"
  unfolding run_def
proof (induction evs arbitrary: st)
  case Nil
  then show ?case by simp
next
  case (Cons ev evs)
  from Cons.prems have "reticle (step x st ev) \<noteq> None"
    by (rule step_reticle_set)
  then have "reticle (foldl (step x) (step x st ev) evs) \<noteq> None"
    by (rule Cons.IH)
  then show ?case by simp
qed

lemma started_session_reticle_set:
  assumes "requestSession_result env = None"
  shows "reticle (run x (fst (activateXR env x st)) evs) \<noteq> None"
proof -
  have "reticle (fst (activateXR env x st)) \<noteq> None"
    using assms
    by (simp add: activateXR_def onSessionStarted_def setupThreeJs_def Let_def
        split: option.splits)
  then show ?thesis by (rule run_reticle_set)
qed

text \<open>
  C3: the model is placed at most once per session. The first select event with a loaded
  model (and the reticle of the session) copies the reticle's position into the model,
  makes the model visible and sets the placed flag; whatever events follow (selects,
  frames, the loader's callback, captures), a select event after them is a no-op:
  it returns the state it was given, so the model's position, the placed flag and the
  display of the capture container are unchanged, and it makes no call.
\<close>

theorem onSelect_places_once:
  assumes "\<not> modelCloned st" and "sunflower st = Some m" and "reticle st = Some r"
  shows "sunflower (fst (onSelect x st)) = Some (m\<lparr>position := position r, visible := True\<rparr>)
       \<and> modelCloned (fst (onSelect x st))
       \<and> onSelect x (run x (fst (onSelect x st)) evs) = (run x (fst (onSelect x st)) evs, [])"
  using assms by (simp add: onSelect_places onSelect_placed_noop run_placed)

theorem onSelect_places_once_witness:
  "\<not> modelCloned sample_loaded
   \<and> sunflower sample_loaded = Some \<lparr>position = (0, 0, 0), visible = False\<rparr>
   \<and> reticle sample_loaded = Some \<lparr>position = (1, 0, - 2), visible = True\<rparr>
   \<and> sunflower (fst (onSelect sample_ext sample_loaded))
       = Some \<lparr>position = (1, 0, - 2), visible = True\<rparr>
   \<and> modelCloned (fst (onSelect sample_ext sample_loaded))
   \<and> onSelect sample_ext
        (run sample_ext (fst (onSelect sample_ext sample_loaded))
           [XRFrame sample_frame, CaptureClick, Select])
       = (run sample_ext (fst (onSelect sample_ext sample_loaded))
           [XRFrame sample_frame, CaptureClick, Select], [])"
proof -
  have h1: "\<not> modelCloned sample_loaded"
    by (simp add: sample_loaded_eq)
  have h2: "sunflower sample_loaded = Some \<lparr>position = (0, 0, 0), visible = False\<rparr>"
    by (simp add: sample_loaded_eq)
  have h3: "reticle sample_loaded = Some \<lparr>position = (1, 0, - 2), visible = True\<rparr>"
    by (simp add: sample_loaded_eq)
  from onSelect_places_once [OF h1 h2 h3, of sample_ext "[XRFrame sample_frame, CaptureClick, Select]"]
    h1 h2 h3
  show ?thesis by simp
qed

text \<open>
  C8: a select event that arrives while the model handle is unset is a complete no-op:
  it returns the state it was given (the placed flag, the display of the capture
  container and the reticle are as they were) and makes no call. So when the flag was
  false and the reticle is set, a select after the loader's callback has stored a model
  places that model at the reticle and sets the flag.
\<close>

theorem onSelect_before_model_loaded:
  assumes "sunflower st = None"
  shows "onSelect x st = (st, [])
       \<and> (\<not> modelCloned st \<and> reticle st = Some r \<and> has_Sketchfab_model g \<longrightarrow>
            sunflower (fst (onSelect x (fst (setupThreeJs_onload g (fst (onSelect x st))))))
              = Some ((gltf_scene g)\<lparr>position := position r, visible := True\<rparr>)
            \<and> modelCloned (fst (onSelect x (fst (setupThreeJs_onload g (fst (onSelect x st)))))))"
proof -
  have noop: "onSelect x st = (st, [])"
    using assms by (simp add: onSelect_def)
  have later: "sunflower (fst (onSelect x (fst (setupThreeJs_onload g st))))
                 = Some ((gltf_scene g)\<lparr>position := position r, visible := True\<rparr>)
               \<and> modelCloned (fst (onSelect x (fst (setupThreeJs_onload g st))))"
    if "\<not> modelCloned st" and "reticle st = Some r" and "has_Sketchfab_model g"
  proof -
    let ?st = "fst (setupThreeJs_onload g st)"
    have a: "\<not> modelCloned ?st"
      using that by (simp add: setupThreeJs_onload_modelCloned)
    have b: "sunflower ?st = Some ((gltf_scene g)\<lparr>visible := False\<rparr>)"
      using that by (simp add: setupThreeJs_onload_sunflower)
    have c: "reticle ?st = Some r"
      using that by (simp add: setupThreeJs_onload_reticle)
    from onSelect_places(1,2) [OF a b c, of x] show ?thesis by simp
  qed
  from noop later show ?thesis by simp
qed

theorem onSelect_before_model_loaded_witness:
  "sunflower sample_started = None
   \<and> onSelect sample_ext sample_started = (sample_started, [])
   \<and> \<not> modelCloned sample_started
   \<and> reticle sample_started = Some \<lparr>position = (0, 0, 0), visible = False\<rparr>
   \<and> has_Sketchfab_model sample_gltf
   \<and> sunflower (fst (onSelect sample_ext
         (fst (setupThreeJs_onload sample_gltf (fst (onSelect sample_ext sample_started))))))
       = Some \<lparr>position = (0, 0, 0), visible = True\<rparr>
   \<and> modelCloned (fst (onSelect sample_ext
         (fst (setupThreeJs_onload sample_gltf (fst (onSelect sample_ext sample_started))))))"
proof -
  have h: "sunflower sample_started = None"
    by (simp add: sample_started_eq)
  have p: "\<not> modelCloned sample_started"
    "reticle sample_started = Some \<lparr>position = (0, 0, 0), visible = False\<rparr>"
    "has_Sketchfab_model sample_gltf"
    by (simp_all add: sample_started_eq sample_gltf_def)
  have g: "(gltf_scene sample_gltf)\<lparr>position := position \<lparr>position = (0, 0, 0), visible = False\<rparr>,
              visible := True\<rparr> = \<lparr>position = (0, 0, 0), visible = True\<rparr>"
    by (simp add: sample_gltf_def)
  note t = onSelect_before_model_loaded [OF h, of sample_ext
      "\<lparr>position = (0, 0, 0), visible = False\<rparr>" sample_gltf]
  have c1: "onSelect sample_ext sample_started = (sample_started, [])"
    using t by (rule conjunct1)
  from t p have "sunflower (fst (onSelect sample_ext
         (fst (setupThreeJs_onload sample_gltf (fst (onSelect sample_ext sample_started))))))
       = Some ((gltf_scene sample_gltf)\<lparr>position :=
           position \<lparr>position = (0, 0, 0), visible = False\<rparr>, visible := True\<rparr>)
     \<and> modelCloned (fst (onSelect sample_ext
         (fst (setupThreeJs_onload sample_gltf (fst (onSelect sample_ext sample_started))))))"
    by blast
  then have c2: "sunflower (fst (onSelect sample_ext
         (fst (setupThreeJs_onload sample_gltf (fst (onSelect sample_ext sample_started))))))
       = Some \<lparr>position = (0, 0, 0), visible = True\<rparr>
     \<and> modelCloned (fst (onSelect sample_ext
         (fst (setupThreeJs_onload sample_gltf (fst (onSelect sample_ext sample_started))))))"
    unfolding g .
  from h c1 p c2 show ?thesis by blast
qed

text \<open>
  C10: once the placed flag is set, the per-frame callback leaves the reticle as it is:
  whatever events follow the state in which the flag is set, and whatever pose and
  hit-test results a frame then carries, the reticle after \<open>onXRFrame\<close> (its visibility
  and its position) is the reticle of that state. In particular, after the select that
  places the model it stays what \<open>hide\<close> made of it.
\<close>

theorem onXRFrame_after_placement_keeps_reticle:
  assumes "modelCloned st"
  shows "reticle (fst (onXRFrame (run x st evs) frame)) = reticle st
       \<and> (\<not> modelCloned st0 \<and> sunflower st0 = Some m \<and> reticle st0 = Some r \<longrightarrow>
            reticle (fst (onXRFrame (run x (fst (onSelect x st0)) evs) frame))
              = Some (reticle_hide x r))"
proof -
  have frame_keeps: "reticle (fst (onXRFrame (run x s evs) frame)) = reticle s"
    if "modelCloned s" for s
    using that by (simp add: onXRFrame_placed_reticle run_placed run_placed_reticle)
  have "reticle (fst (onXRFrame (run x (fst (onSelect x st0)) evs) frame))
          = Some (reticle_hide x r)"
    if "\<not> modelCloned st0" and "sunflower st0 = Some m" and "reticle st0 = Some r"
    using frame_keeps [of "fst (onSelect x st0)"] onSelect_places(2,3) [OF that, of x]
    by simp
  with frame_keeps [OF assms] show ?thesis by simp
qed

theorem onXRFrame_after_placement_keeps_reticle_witness:
  "modelCloned (fst (onSelect sample_ext sample_loaded))
   \<and> reticle (fst (onXRFrame
        (run sample_ext (fst (onSelect sample_ext sample_loaded)) [XRFrame sample_frame, Select])
        sample_frame))
       = reticle (fst (onSelect sample_ext sample_loaded))
   \<and> \<not> modelCloned sample_loaded
   \<and> sunflower sample_loaded = Some \<lparr>position = (0, 0, 0), visible = False\<rparr>
   \<and> reticle sample_loaded = Some \<lparr>position = (1, 0, - 2), visible = True\<rparr>
   \<and> reticle (fst (onXRFrame
        (run sample_ext (fst (onSelect sample_ext sample_loaded)) [XRFrame sample_frame, Select])
        sample_frame))
       = Some \<lparr>position = (1, 0, - 2), visible = False\<rparr>"
proof -
  have h1: "\<not> modelCloned sample_loaded"
    by (simp add: sample_loaded_eq)
  have h2: "sunflower sample_loaded = Some \<lparr>position = (0, 0, 0), visible = False\<rparr>"
    by (simp add: sample_loaded_eq)
  have h3: "reticle sample_loaded = Some \<lparr>position = (1, 0, - 2), visible = True\<rparr>"
    by (simp add: sample_loaded_eq)
  have h: "modelCloned (fst (onSelect sample_ext sample_loaded))"
    using onSelect_places(2) [OF h1 h2 h3] .
  have hide: "reticle_hide sample_ext \<lparr>position = (1, 0, - 2), visible = True\<rparr>
                = \<lparr>position = (1, 0, - 2), visible = False\<rparr>"
    by (simp add: sample_ext_def)
  note t = onXRFrame_after_placement_keeps_reticle [OF h, of sample_ext
      "[XRFrame sample_frame, Select]" sample_frame sample_loaded
      "\<lparr>position = (0, 0, 0), visible = False\<rparr>"
      "\<lparr>position = (1, 0, - 2), visible = True\<rparr>"]
  have c1: "reticle (fst (onXRFrame
        (run sample_ext (fst (onSelect sample_ext sample_loaded)) [XRFrame sample_frame, Select])
        sample_frame))
       = reticle (fst (onSelect sample_ext sample_loaded))"
    using t by (rule conjunct1)
  from t h1 h2 h3 have "reticle (fst (onXRFrame
        (run sample_ext (fst (onSelect sample_ext sample_loaded)) [XRFrame sample_frame, Select])
        sample_frame))
       = Some (reticle_hide sample_ext \<lparr>position = (1, 0, - 2), visible = True\<rparr>)"
    by blast
  then have c2: "reticle (fst (onXRFrame
        (run sample_ext (fst (onSelect sample_ext sample_loaded)) [XRFrame sample_frame, Select])
        sample_frame))
       = Some \<lparr>position = (1, 0, - 2), visible = False\<rparr>"
    unfolding hide .
  from h c1 h1 h2 h3 c2 show ?thesis by blast
qed

subsection \<open>The frame callbacks\<close>

lemma onXRFrame_trace:
  "\<exists>rest. snd (onXRFrame st frame) =
      RequestAnimationFrame CB_onXRFrame # Call gl_bindFramebuffer #
      Call renderer_setFramebuffer # GetViewerPose # rest
    \<and> filter is_RequestAnimationFrame rest = []"
proof (cases "viewerPose frame")
  case None
  then show ?thesis by (simp add: onXRFrame_def)
next
  case (Some v)
  obtain w h where v: "v = (w, h)" by (cases v)
  show ?thesis
  proof (cases "hitTestResults frame")
    case Nil
    with Some v show ?thesis
      by (simp add: onXRFrame_def Let_def is_RequestAnimationFrame_def)
  next
    case (Cons hp hs)
    show ?thesis
    proof (cases "reticle st")
      case None
      with Some v Cons show ?thesis
        by (simp add: onXRFrame_def Let_def is_RequestAnimationFrame_def)
    next
      case r: (Some r)
      with Some v Cons show ?thesis
        by (cases hp; cases "modelCloned st")
           (simp_all add: onXRFrame_def Let_def is_RequestAnimationFrame_def)
    qed
  qed
qed

lemma combineCanvases_no_frame_request:
  "filter is_RequestAnimationFrame (snd (combineCanvases x env st ar cam)) = []"
  by (simp add: combineCanvases_def Let_def is_RequestAnimationFrame_def
      split: image_event.splits option.splits)

lemma getCamerafeed_no_frame_request:
  "filter is_RequestAnimationFrame (snd (getCamerafeed x nav env st ar)) = []"
proof (cases "has_mediaDevices nav")
  case False
  then show ?thesis by (simp add: getCamerafeed_def)
next
  case True
  show ?thesis
  proof (cases "getUserMedia_result env")
    case (Some e)
    with True show ?thesis
      by (simp add: getCamerafeed_def Let_def is_RequestAnimationFrame_def)
  next
    case None
    show ?thesis
    proof (cases "video_loadeddata env")
      case nv: None
      with True None show ?thesis
        by (simp add: getCamerafeed_def Let_def is_RequestAnimationFrame_def)
    next
      case sv: (Some v)
      obtain vw vh where "v = (vw, vh)" by (cases v)
      with True None sv show ?thesis
        by (simp add: getCamerafeed_def Let_def is_RequestAnimationFrame_def
            combineCanvases_no_frame_request case_prod_beta)
    qed
  qed
qed

lemma captureImage_frame_no_frame_request:
  "filter is_RequestAnimationFrame (snd (captureImage_frame x nav env st frame)) = []"
proof (cases "viewerPose frame")
  case None
  then show ?thesis
    by (simp add: captureImage_frame_def is_RequestAnimationFrame_def)
next
  case (Some v)
  obtain w h where "v = (w, h)" by (cases v)
  with Some show ?thesis
    by (simp add: captureImage_frame_def Let_def is_RequestAnimationFrame_def
        getCamerafeed_no_frame_request case_prod_beta)
qed

text \<open>
  C7: every call of \<open>onXRFrame\<close> requests the next animation frame with itself as the
  callback, as the first thing it does and so before it asks the frame for the viewer
  pose, whatever the pose and the state are, and it makes that request once. The click
  handler \<open>captureImage\<close> requests exactly one frame, for its own callback, and that
  callback, with everything it leads to (camera feed, compositing), requests none.
\<close>

theorem frame_callbacks_rearm:
  "filter is_RequestAnimationFrame (snd (onXRFrame st frame))
     = [RequestAnimationFrame CB_onXRFrame]
   \<and> hd (snd (onXRFrame st frame)) = RequestAnimationFrame CB_onXRFrame
   \<and> RequestAnimationFrame CB_onXRFrame
       \<in> set (takeWhile (\<lambda>e. e \<noteq> GetViewerPose) (snd (onXRFrame st frame)))
   \<and> filter is_RequestAnimationFrame (snd (captureImage st))
       = [RequestAnimationFrame CB_captureImage_frame]
   \<and> filter is_RequestAnimationFrame (snd (captureImage_frame x nav env st' frame')) = []"
proof -
  obtain rest where t: "snd (onXRFrame st frame) =
      RequestAnimationFrame CB_onXRFrame # Call gl_bindFramebuffer #
      Call renderer_setFramebuffer # GetViewerPose # rest"
    and r: "filter is_RequestAnimationFrame rest = []"
    using onXRFrame_trace by blast
  have a: "filter is_RequestAnimationFrame (snd (onXRFrame st frame))
             = [RequestAnimationFrame CB_onXRFrame]"
    unfolding t using r by (simp add: is_RequestAnimationFrame_def)
  have b: "hd (snd (onXRFrame st frame)) = RequestAnimationFrame CB_onXRFrame"
    unfolding t by simp
  have c: "RequestAnimationFrame CB_onXRFrame
             \<in> set (takeWhile (\<lambda>e. e \<noteq> GetViewerPose) (snd (onXRFrame st frame)))"
    unfolding t by simp
  have d: "filter is_RequestAnimationFrame (snd (captureImage st))
             = [RequestAnimationFrame CB_captureImage_frame]"
    by (simp add: captureImage_def is_RequestAnimationFrame_def)
  from a b c d captureImage_frame_no_frame_request show ?thesis by blast
qed

subsection \<open>The hand-off through local storage\<close>

lemma combineCanvases_navigates_after_write:
  "filter is_Navigate
     (takeWhile (\<lambda>e. \<not> is_SetItem e) (snd (combineCanvases x env st ar cam))) = []"
  by (simp add: combineCanvases_def Let_def is_Navigate_def is_SetItem_def
      split: image_event.splits option.splits)

lemma combineCanvases_empty_canvas:
  assumes "banner_result env = ImgLoad bw bh"
    and "cwidth cam = 0 \<or> cheight cam = 0 \<or> cwidth ar = 0 \<or> cheight ar = 0"
  shows "combineCanvases x env st ar cam =
           (st, [Call createElement_canvas, LoadImage ''public/banner.jpg'',
                 Uncaught (DOMException ''InvalidStateError'')])"
  using assms by (simp add: combineCanvases_def Let_def)

text \<open>
  C2: on the successful path of \<open>combineCanvases\<close> (the banner image loads, the two
  canvases it draws have a width and a height other than zero, so that \<open>drawImage\<close> does
  not throw, and \<open>setItem\<close> returns) exactly one entry is written to local storage,
  under the key 'capturedImage', and its value is the final canvas encoded as
  'image/png'; the page then navigates to 'review.html', once. On every path, successful
  or not, no navigation stands before the write in the order of calls, so there is no
  navigation without it.
\<close>

theorem combineCanvases_writes_then_navigates:
  assumes "banner_result env = ImgLoad bw bh" and "setItem_result env = None"
    and "0 < cwidth cam" and "0 < cheight cam" and "0 < cwidth ar" and "0 < cheight ar"
  shows "filter is_SetItem (snd (combineCanvases x env st ar cam))
           = [SetItem ''capturedImage'' (toDataURL x ''image/png'' (finalCanvas ar cam bh))]
       \<and> filter is_Navigate (snd (combineCanvases x env st ar cam)) = [Navigate ''review.html'']
       \<and> (\<forall>env' st' ar' cam'.
            filter is_Navigate
              (takeWhile (\<lambda>e. \<not> is_SetItem e) (snd (combineCanvases x env' st' ar' cam'))) = [])"
proof -
  have a: "filter is_SetItem (snd (combineCanvases x env st ar cam))
             = [SetItem ''capturedImage'' (toDataURL x ''image/png'' (finalCanvas ar cam bh))]"
    using assms by (simp add: combineCanvases_def Let_def is_SetItem_def)
  have b: "filter is_Navigate (snd (combineCanvases x env st ar cam)) = [Navigate ''review.html'']"
    using assms by (simp add: combineCanvases_def Let_def is_Navigate_def)
  from a b combineCanvases_navigates_after_write show ?thesis by blast
qed

theorem combineCanvases_writes_then_navigates_witness:
  "banner_result sample_capture_env = ImgLoad 1080 200
   \<and> setItem_result sample_capture_env = None
   \<and> 0 < cwidth sample_cameraCanvas \<and> 0 < cheight sample_cameraCanvas
   \<and> 0 < cwidth sample_arCanvas \<and> 0 < cheight sample_arCanvas
   \<and> filter is_SetItem
       (snd (combineCanvases sample_ext sample_capture_env sample_loaded
          sample_arCanvas sample_cameraCanvas))
       = [SetItem ''capturedImage'' ''data:image/png;base64,'']
   \<and> filter is_Navigate
       (snd (combineCanvases sample_ext sample_capture_env sample_loaded
          sample_arCanvas sample_cameraCanvas))
       = [Navigate ''review.html'']"
proof -
  have h1: "banner_result sample_capture_env = ImgLoad 1080 200"
    by (simp add: sample_capture_env_def)
  have h2: "setItem_result sample_capture_env = None"
    by (simp add: sample_capture_env_def)
  have h3: "0 < cwidth sample_cameraCanvas" and h4: "0 < cheight sample_cameraCanvas"
    by (simp_all add: sample_cameraCanvas_def)
  have h5: "0 < cwidth sample_arCanvas" and h6: "0 < cheight sample_arCanvas"
    by (simp_all add: sample_arCanvas_def)
  have u: "toDataURL sample_ext ''image/png''
             (finalCanvas sample_arCanvas sample_cameraCanvas 200)
           = ''data:image/png;base64,''"
    by (simp add: sample_ext_def)
  note t = combineCanvases_writes_then_navigates [OF h1 h2 h3 h4 h5 h6, of sample_ext sample_loaded]
  from t have c1: "filter is_SetItem
       (snd (combineCanvases sample_ext sample_capture_env sample_loaded
          sample_arCanvas sample_cameraCanvas))
       = [SetItem ''capturedImage'' ''data:image/png;base64,'']"
    unfolding u by (rule conjunct1)
  from t have c2: "filter is_Navigate
       (snd (combineCanvases sample_ext sample_capture_env sample_loaded
          sample_arCanvas sample_cameraCanvas))
       = [Navigate ''review.html'']"
    by blast
  from h1 h2 h3 h4 h5 h6 c1 c2 show ?thesis by blast
qed

text \<open>
  C5: when the banner image fails to load, \<open>combineCanvases\<close> shows the alert
  'Failed to load the banner image.' and does nothing else after requesting the image:
  the state is unchanged, nothing is written to local storage and there is no
  navigation.
\<close>

theorem combineCanvases_banner_error:
  assumes "banner_result env = ImgError"
  shows "combineCanvases x env st ar cam =
           (st, [Call createElement_canvas, LoadImage ''public/banner.jpg'',
                 Alert ''Failed to load the banner image.''])
       \<and> filter is_SetItem (snd (combineCanvases x env st ar cam)) = []
       \<and> filter is_Navigate (snd (combineCanvases x env st ar cam)) = []"
  using assms
  by (simp add: combineCanvases_def Let_def is_Navigate_def is_SetItem_def)

theorem combineCanvases_banner_error_witness:
  "banner_result (sample_capture_env\<lparr>banner_result := ImgError\<rparr>) = ImgError
   \<and> combineCanvases sample_ext (sample_capture_env\<lparr>banner_result := ImgError\<rparr>) sample_loaded
        sample_arCanvas sample_cameraCanvas
       = (sample_loaded, [Call createElement_canvas, LoadImage ''public/banner.jpg'',
                 Alert ''Failed to load the banner image.''])
   \<and> filter is_SetItem (snd (combineCanvases sample_ext
        (sample_capture_env\<lparr>banner_result := ImgError\<rparr>) sample_loaded
        sample_arCanvas sample_cameraCanvas)) = []
   \<and> filter is_Navigate (snd (combineCanvases sample_ext
        (sample_capture_env\<lparr>banner_result := ImgError\<rparr>) sample_loaded
        sample_arCanvas sample_cameraCanvas)) = []"
proof -
  have h: "banner_result (sample_capture_env\<lparr>banner_result := ImgError\<rparr>) = ImgError"
    by simp
  from combineCanvases_banner_error [OF h, of sample_ext sample_loaded
      sample_arCanvas sample_cameraCanvas] h
  show ?thesis by blast
qed

text \<open>
  C1: when local storage has no entry under the key 'capturedImage', the review script
  shows the alert 'No image data available.' and does nothing else: it does not set the
  displayed image, does not load the image, size or draw on the canvas, and does not set
  up the download or share button, whatever would have happened to the image.
\<close>

theorem review_without_image_data:
  assumes "localStorage ''capturedImage'' = None"
  shows "review localStorage image_result = [Alert ''No image data available.'']
       \<and> filter is_render (review localStorage image_result) = []"
  using assms by (simp add: review_def is_render_def)

theorem review_without_image_data_witness:
  "Map.empty ''capturedImage'' = (None :: string option)
   \<and> review Map.empty (ImgLoad 1080 2000) = [Alert ''No image data available.'']
   \<and> filter is_render (review Map.empty (ImgLoad 1080 2000)) = []"
proof -
  have h: "Map.empty ''capturedImage'' = (None :: string option)"
    by simp
  from review_without_image_data [OF h, of "ImgLoad 1080 2000"] h
  show ?thesis by blast
qed

subsection \<open>Failures\<close>

text \<open>
  C6: when the browser has no WebXR or answers that 'immersive-ar' is not supported, the
  start-up check calls \<open>onNoXRDevice\<close> and, apart from the support query itself, does
  nothing else: it does not register \<open>activateXR\<close>, so no session is requested. When the
  session request is rejected, \<open>activateXR\<close> logs the exception, calls
  \<open>onNoXRDevice\<close> and stops, leaving the state as it was: the session was requested
  once and is not requested again.
\<close>

theorem no_xr_shows_fallback:
  "(\<not> has_xr nav \<or> isSessionSupported_result nav = Inr False \<longrightarrow>
      filter (\<lambda>e. e \<noteq> Call xr_isSessionSupported) (xr_support_check nav) = [OnNoXRDevice])
   \<and> (requestSession_result env = Some e \<longrightarrow>
        activateXR env x st =
          (st, [RequestSession ''immersive-ar'', ConsoleLogError e, OnNoXRDevice])
        \<and> length (filter is_RequestSession (snd (activateXR env x st))) = 1)"
proof -
  have a: "filter (\<lambda>e. e \<noteq> Call xr_isSessionSupported) (xr_support_check nav) = [OnNoXRDevice]"
    if "\<not> has_xr nav \<or> isSessionSupported_result nav = Inr False"
    using that by (auto simp: xr_support_check_def)
  have b: "activateXR env x st =
             (st, [RequestSession ''immersive-ar'', ConsoleLogError e, OnNoXRDevice])
           \<and> length (filter is_RequestSession (snd (activateXR env x st))) = 1"
    if "requestSession_result env = Some e"
    using that by (simp add: activateXR_def is_RequestSession_def)
  from a b show ?thesis by blast
qed

theorem no_xr_shows_fallback_witness:
  "isSessionSupported_result (sample_navigator\<lparr>isSessionSupported_result := Inr False\<rparr>) = Inr False
   \<and> filter (\<lambda>e. e \<noteq> Call xr_isSessionSupported)
        (xr_support_check (sample_navigator\<lparr>isSessionSupported_result := Inr False\<rparr>))
       = [OnNoXRDevice]
   \<and> requestSession_result
        (sample_xr_env\<lparr>requestSession_result := Some (DOMException ''NotSupportedError'')\<rparr>)
       = Some (DOMException ''NotSupportedError'')
   \<and> activateXR
        (sample_xr_env\<lparr>requestSession_result := Some (DOMException ''NotSupportedError'')\<rparr>)
        sample_ext sample_started
       = (sample_started,
          [RequestSession ''immersive-ar'', ConsoleLogError (DOMException ''NotSupportedError''),
           OnNoXRDevice])
   \<and> length (filter is_RequestSession (snd (activateXR
        (sample_xr_env\<lparr>requestSession_result := Some (DOMException ''NotSupportedError'')\<rparr>)
        sample_ext sample_started))) = 1"
proof -
  have h1: "isSessionSupported_result (sample_navigator\<lparr>isSessionSupported_result := Inr False\<rparr>)
              = Inr False"
    by simp
  have h2: "requestSession_result
        (sample_xr_env\<lparr>requestSession_result := Some (DOMException ''NotSupportedError'')\<rparr>)
       = Some (DOMException ''NotSupportedError'')"
    by simp
  from no_xr_shows_fallback [of "sample_navigator\<lparr>isSessionSupported_result := Inr False\<rparr>"
      "sample_xr_env\<lparr>requestSession_result := Some (DOMException ''NotSupportedError'')\<rparr>"
      "DOMException ''NotSupportedError''" sample_ext sample_started] h1 h2
  show ?thesis by blast
qed

lemma getCamerafeed_rejected:
  assumes "has_mediaDevices nav" and "getUserMedia_result env = Some e"
  shows "getCamerafeed x nav env st ar =
           (st, [Call getElementById_video, Call createElement_canvas, GetUserMedia,
                 ConsoleErrorWith ''Error accessing media devices.'' e,
                 Alert ''Failed to access the camera. Please check your browser permissions.''])"
  using assms by (simp add: getCamerafeed_def Let_def)

text \<open>
  C4, on the code: when the media-device API is unavailable
  (\<open>navigator.mediaDevices\<close> or its \<open>getUserMedia\<close> is missing), \<open>getCamerafeed\<close>
  returns without a single call: nothing is logged and no alert is shown.
\<close>

theorem getCamerafeed_unavailable_silent:
  "getCamerafeed x (nav\<lparr>has_mediaDevices := False\<rparr>) env st arCanvas = (st, [])"
  by (simp add: getCamerafeed_def)

subsection \<open>The crop\<close>

lemma targetHeight_le: "targetHeight h \<le> h"
  by (simp add: targetHeight_def)

text \<open>
  C9: for every height \<open>h\<close> of the AR canvas, \<open>targetHeight\<close> is the floor of
  \<open>3 * h / 4\<close> and \<open>cropMargin\<close> the floor of half the rest, the cropped rows lie
  within the canvas (\<open>cropMargin + targetHeight \<le> h\<close>), and the final canvas is as high
  as \<open>targetHeight\<close> plus the banner.
\<close>

theorem crop_within_canvas:
  "cropMargin h + targetHeight h \<le> h
   \<and> int (targetHeight h) = \<lfloor>3 * real h / 4\<rfloor>
   \<and> int (cropMargin h) = \<lfloor>(real h - real (targetHeight h)) / 2\<rfloor>
   \<and> cheight (finalCanvas arCanvas cameraCanvas banner_height)
       = targetHeight (cheight arCanvas) + banner_height"
proof -
  have a: "cropMargin h + targetHeight h \<le> h"
    using targetHeight_le [of h] by (simp add: cropMargin_def)
  have "3 * real h / 4 = real (3 * h) / real 4"
    by simp
  then have b: "int (targetHeight h) = \<lfloor>3 * real h / 4\<rfloor>"
    unfolding targetHeight_def by (simp only: floor_divide_of_nat_eq)
  have "(real h - real (targetHeight h)) / 2 = real (h - targetHeight h) / real 2"
    using targetHeight_le [of h] by simp
  then have c: "int (cropMargin h) = \<lfloor>(real h - real (targetHeight h)) / 2\<rfloor>"
    unfolding cropMargin_def by (simp only: floor_divide_of_nat_eq)
  have d: "cheight (finalCanvas arCanvas cameraCanvas banner_height)
             = targetHeight (cheight arCanvas) + banner_height"
    by (simp add: finalCanvas_def Let_def)
  from a b c d show ?thesis by simp
qed

end
